theory Spec2Isabelle
  imports Main "HOL-Library.Word"
begin

section \<open>Go values shared by both packages\<close>

subsection \<open>Errors\<close>

text \<open>
  A non-nil Go \<open>error\<close> is one of the sentinels the handlers compare against
  (\<open>pgx.ErrNoRows\<close>, the package's own \<open>errInvalidPassword\<close>, \<open>http.ErrNoCookie\<close>),
  a (non-nil) \<open>*pgconn.PgError\<close> given by its SQLSTATE \<open>Code\<close>, some other leaf error
  given by its text, or an error built from other errors:
  \<^item> \<open>Errorf m e\<close> wraps one error, as \<open>fmt.Errorf("...: %w", err)\<close> does
    (\<open>Unwrap() error\<close>);
  \<^item> \<open>Join es\<close> wraps several errors, as \<open>errors.Join\<close> and \<open>fmt.Errorf\<close> with more
    than one \<open>%w\<close> do (\<open>Unwrap() []error\<close>);
  \<^item> \<open>WithIs ts e\<close> is an error of a type with an \<open>Is\<close> method of its own, which
    accepts the targets \<open>ts\<close>, and which unwraps to \<open>e\<close>.
  A nil \<open>error\<close> is \<open>None\<close> of \<open>goerror option\<close>, or the \<open>Inr\<close> side of a result.
\<close>

datatype goerror =
    ErrNoRows
  | errInvalidPassword
  | ErrNoCookie
  | PgError (pgCode: string)
  | ErrorString string
  | Errorf string goerror
  | Join "goerror list"
  | WithIs "goerror list" goerror

text \<open>
  \<open>errors.Is(err, target)\<close>: at each error of the tree below \<open>err\<close>, depth first, it
  compares the error with the target and asks the error's \<open>Is\<close> method, if it has one.
  The handlers pass a sentinel as the target.
\<close>

fun errors_Is :: "goerror \<Rightarrow> goerror \<Rightarrow> bool" where
  "errors_Is (Errorf m e) target = (Errorf m e = target \<or> errors_Is e target)"
| "errors_Is (Join es) target = (Join es = target \<or> (\<exists>e \<in> set es. errors_Is e target))"
| "errors_Is (WithIs ts e) target =
     (WithIs ts e = target \<or> target \<in> set ts \<or> errors_Is e target)"
| "errors_Is e target = (e = target)"

text \<open>
  The type assertion \<open>pgErr, ok := err.(*pgconn.PgError)\<close>: it looks at the dynamic type
  of \<open>err\<close> itself and never unwraps.
\<close>

fun assert_PgError :: "goerror \<Rightarrow> string option" where
  "assert_PgError (PgError c) = Some c"
| "assert_PgError _ = None"

subsection \<open>The response envelope\<close>

text \<open>
  \<open>api.Response\<close>, by the fields the handlers set. A field a handler leaves out has Go's
  zero value: nil for \<open>Error\<close> and \<open>Data\<close>. \<open>Data\<close> has the type of whatever the
  repository returned.
\<close>

record 'd Response =
  Error :: "goerror option"
  Code :: int
  Message :: string
  Data :: "'d option"

definition StatusOK :: int where "StatusOK = 200"
definition StatusCreated :: int where "StatusCreated = 201"
definition StatusBadRequest :: int where "StatusBadRequest = 400"
definition StatusUnauthorized :: int where "StatusUnauthorized = 401"
definition StatusNotFound :: int where "StatusNotFound = 404"
definition StatusConflict :: int where "StatusConflict = 409"
definition StatusInternalServerError :: int where "StatusInternalServerError = 500"

subsection \<open>Requests and response writers\<close>

text \<open>
  \<open>http.Request\<close>, by the parts the handlers read: the body bytes, the limit
  \<open>http.MaxBytesReader\<close> puts on them, the parsed URL query, the cookies in header order,
  the path wildcards, and what \<open>ParseMultipartForm\<close> fills in: \<open>Form\<close>, the values of
  the query and of the body together, and \<open>MultipartForm\<close> (both nil before parsing).
  The field \<open>Value\<close> of a \<open>multipart.Form\<close> is \<open>FormValue_map\<close> here. A
  \<open>multipart.FileHeader\<close> is kept abstract (type \<open>'f\<close>).
\<close>

record Cookie =
  Name :: string
  Value :: string

record 'f multipart_Form =
  FormValue_map :: "string \<rightharpoonup> string list"
  File :: "(string \<rightharpoonup> 'f list) option"

record 'f Request =
  Body :: string
  BodyLimit :: "nat option"
  URL_Query :: "string \<rightharpoonup> string list"
  Cookies :: "Cookie list"
  PathValues :: "string \<rightharpoonup> string"
  Form :: "(string \<rightharpoonup> string list) option"
  MultipartForm :: "'f multipart_Form option"

text \<open>\<open>url.Values.Get\<close>: the first value of the key, or the empty string.\<close>

definition Values_Get :: "(string \<rightharpoonup> string list) \<Rightarrow> string \<Rightarrow> string" where
  "Values_Get vs key = (case vs key of Some (v # _) \<Rightarrow> v | _ \<Rightarrow> [])"

text \<open>\<open>r.PathValue(name)\<close>: the wildcard's value, or the empty string.\<close>

definition PathValue :: "'f Request \<Rightarrow> string \<Rightarrow> string" where
  "PathValue r name = (case PathValues r name of Some v \<Rightarrow> v | None \<Rightarrow> [])"

text \<open>\<open>r.Cookie(name)\<close>: the first cookie of that name, or \<open>http.ErrNoCookie\<close>.\<close>

definition Cookie_of :: "'f Request \<Rightarrow> string \<Rightarrow> goerror + Cookie" where
  "Cookie_of r name =
     (if name = [] then Inl ErrNoCookie
      else case find (\<lambda>c. Name c = name) (Cookies r) of
             None \<Rightarrow> Inl ErrNoCookie
           | Some c \<Rightarrow> Inr c)"

text \<open>
  \<open>r.FormValue(key)\<close> on a request whose form has been parsed: the first value of the
  key in \<open>r.Form\<close>, or the empty string.
\<close>

definition FormValue :: "'f Request \<Rightarrow> string \<Rightarrow> string" where
  "FormValue r key =
     (case Form r of None \<Rightarrow> [] | Some vs \<Rightarrow> Values_Get vs key)"

text \<open>
  An \<open>http.ResponseWriter\<close>: the status line once it is written, and the body so far
  (headers are not modelled). \<open>WriteHeader\<close> after the status is written has no effect.
  \<open>http.Error(w, msg, code)\<close> writes the status and then the message and a newline.
\<close>

record ResponseWriter =
  status :: "int option"
  written :: string

definition WriteHeader :: "ResponseWriter \<Rightarrow> int \<Rightarrow> ResponseWriter" where
  "WriteHeader w code = (case status w of None \<Rightarrow> w\<lparr>status := Some code\<rparr> | Some _ \<Rightarrow> w)"

definition http_Error :: "ResponseWriter \<Rightarrow> string \<Rightarrow> int \<Rightarrow> ResponseWriter" where
  "http_Error w msg code =
     (let w1 = WriteHeader w code in w1\<lparr>written := written w1 @ msg @ [CHR 0x0A]\<rparr>)"

subsection \<open>The world outside a handler\<close>

text \<open>
  A handler runs against collaborators that keep state of their own (the database, the
  photo store, the handler behind a middleware). The world is that state, of a type \<open>'s\<close>
  the handlers never look into, together with the list of the calls made to the
  collaborators so far, oldest first. \<open>invoke\<close> is one such call: it runs the
  collaborator on its state and records the call.
\<close>

record ('e, 's) world =
  calls :: "'e list"
  store :: 's

definition invoke :: "'e \<Rightarrow> ('s \<Rightarrow> 'a \<times> 's) \<Rightarrow> ('e, 's) world \<Rightarrow> 'a \<times> ('e, 's) world" where
  "invoke ev f w =
     (case f (store w) of (a, s') \<Rightarrow> (a, \<lparr>calls = calls w @ [ev], store = s'\<rparr>))"

text \<open>The calls made between an earlier world and a later one.\<close>

definition new_calls :: "('e, 's) world \<Rightarrow> ('e, 's) world \<Rightarrow> 'e list" where
  "new_calls w w' = drop (length (calls w)) (calls w')"

section \<open>Package user\<close>

subsection \<open>Data\<close>

type_synonym role = string

definition citizen :: role where "citizen = ''citizen''"
definition responder :: role where "responder = ''responder''"

text \<open>A \<open>time.Time\<close> is passed through untouched; it is modelled as an integer instant.\<close>

type_synonym Time = int

record signUpRequest =
  Email :: string
  Password :: string
  FirstName :: string
  MiddleName :: "string option"
  LastName :: string
  BirthDate :: Time
  Role :: role
  StatusUpdateFrequency :: "64 word"
  IsLocationShared :: bool

record BasicInfo =
  UserID :: string
  FirstName :: string
  MiddleName :: "string option"
  LastName :: string

record userResponse = BasicInfo +
  CreatedAt :: Time
  UpdatedAt :: Time
  Email :: string
  BirthDate :: Time
  Role :: role
  StatusUpdateFrequency :: "64 word"
  IsLocationShared :: bool

record signInRequest =
  Email :: string
  Password :: string

record signInResponse =
  User :: userResponse
  Token :: string

text \<open>
  \<open>signInAnonymousRequest\<close> is declared outside the two source files; the handler reads
  its field \<open>AnonymousID\<close> only.
\<close>

record signInAnonymousRequest =
  AnonymousID :: string

record signOutRequest =
  UserID :: string
  Token :: string

subsection \<open>The repository and the calls made to collaborators\<close>

text \<open>
  The \<open>Repository\<close> interface of package user, by the methods the handlers call. A Go
  method returning \<open>(T, error)\<close> is a sum, one returning \<open>error\<close> an option. The result
  types of \<open>SignInAnonymous\<close> (\<open>'anon\<close>) and \<open>validateSessionToken\<close> (\<open>'sess\<close>) are
  declared outside the source files. The context argument is passed through and not
  modelled.
\<close>

record ('s, 'sess, 'anon) user_Repository =
  repo_SignUp :: "signUpRequest \<Rightarrow> 's \<Rightarrow> goerror option \<times> 's"
  repo_SignIn :: "signInRequest \<Rightarrow> 's \<Rightarrow> (goerror + signInResponse) \<times> 's"
  repo_SignInAnonymous :: "string \<Rightarrow> 's \<Rightarrow> (goerror + 'anon) \<times> 's"
  repo_invalidateSession :: "string \<Rightarrow> string \<Rightarrow> 's \<Rightarrow> goerror option \<times> 's"
  repo_validateSessionToken :: "string \<Rightarrow> 's \<Rightarrow> (goerror + 'sess) \<times> 's"

record ('s, 'sess, 'anon) user_Server =
  repository :: "('s, 'sess, 'anon) user_Repository"

datatype 'f user_call =
    Repo_SignUp signUpRequest
  | Repo_SignIn signInRequest
  | Repo_SignInAnonymous string
  | Repo_invalidateSession string string
  | Repo_validateSessionToken string
  | Slog_Error goerror
  | Next_ServeHTTP ResponseWriter "'f Request"

fun is_next_call :: "'f user_call \<Rightarrow> bool" where
  "is_next_call (Next_ServeHTTP _ _) = True"
| "is_next_call _ = False"

subsection \<open>Handlers\<close>

text \<open>
  Each handler takes the JSON decoder for its request type (\<open>json.NewDecoder(r.Body).Decode\<close>,
  a function of the body bytes), the server, the request and the world, and returns the
  response and the world afterwards.
\<close>

definition SignUp ::
  "(string \<Rightarrow> goerror + signUpRequest) \<Rightarrow> ('s, 'sess, 'anon) user_Server \<Rightarrow> 'f Request \<Rightarrow>
   ('f user_call, 's) world \<Rightarrow> unit Response \<times> ('f user_call, 's) world" where
  "SignUp decode s r w =
     (case decode (Body r) of
        Inl err \<Rightarrow>
          (\<lparr>Error = Some (Errorf ''sign up: '' err), Code = StatusBadRequest,
            Message = ''Invalid sign up request.'', Data = None\<rparr>, w)
      | Inr data \<Rightarrow>
          (case invoke (Repo_SignUp data) (repo_SignUp (repository s) data) w of
             (Some err, w') \<Rightarrow>
               (if (case assert_PgError err of Some c \<Rightarrow> c = ''23505'' | None \<Rightarrow> False)
                then (\<lparr>Error = Some (Errorf ''sign up: '' err), Code = StatusConflict,
                       Message = ''User '' @ signUpRequest.Email data @ '' already exists.'',
                       Data = None\<rparr>, w')
                else (\<lparr>Error = Some (Errorf ''sign up: '' err),
                       Code = StatusInternalServerError,
                       Message = ''Failed to sign up.'', Data = None\<rparr>, w'))
           | (None, w') \<Rightarrow>
               (\<lparr>Error = None, Code = StatusCreated,
                 Message = ''Successfully signed up.'', Data = None\<rparr>, w')))"

definition SignIn ::
  "(string \<Rightarrow> goerror + signInRequest) \<Rightarrow> ('s, 'sess, 'anon) user_Server \<Rightarrow> 'f Request \<Rightarrow>
   ('f user_call, 's) world \<Rightarrow> signInResponse Response \<times> ('f user_call, 's) world" where
  "SignIn decode s r w =
     (case decode (Body r) of
        Inl err \<Rightarrow>
          (\<lparr>Error = Some (Errorf ''sign in: '' err), Code = StatusBadRequest,
            Message = ''Invalid sign in request.'', Data = None\<rparr>, w)
      | Inr data \<Rightarrow>
          (case invoke (Repo_SignIn data) (repo_SignIn (repository s) data) w of
             (Inl err, w') \<Rightarrow>
               (if errors_Is err ErrNoRows
                then (\<lparr>Error = Some (Errorf ''sign in: '' err), Code = StatusNotFound,
                       Message = ''Invalid credentials.'', Data = None\<rparr>, w')
                else if errors_Is err errInvalidPassword
                then (\<lparr>Error = Some (Errorf ''sign in: '' err), Code = StatusUnauthorized,
                       Message = ''Invalid password.'', Data = None\<rparr>, w')
                else (\<lparr>Error = Some (Errorf ''sign in: '' err),
                       Code = StatusInternalServerError,
                       Message = ''Failed to sign in.'', Data = None\<rparr>, w'))
           | (Inr response, w') \<Rightarrow>
               (\<lparr>Error = None, Code = StatusOK,
                 Message = ''Successfully signed in.'', Data = Some response\<rparr>, w')))"

definition SignInAnonymous ::
  "(string \<Rightarrow> goerror + signInAnonymousRequest) \<Rightarrow> ('s, 'sess, 'anon) user_Server \<Rightarrow>
   'f Request \<Rightarrow> ('f user_call, 's) world \<Rightarrow> 'anon Response \<times> ('f user_call, 's) world" where
  "SignInAnonymous decode s r w =
     (case decode (Body r) of
        Inl err \<Rightarrow>
          (\<lparr>Error = Some (Errorf ''sign in anon: '' err), Code = StatusBadRequest,
            Message = ''Invalid anonymous sign in request.'', Data = None\<rparr>, w)
      | Inr data \<Rightarrow>
          (case invoke (Repo_SignInAnonymous (AnonymousID data))
                  (repo_SignInAnonymous (repository s) (AnonymousID data)) w of
             (Inl err, w') \<Rightarrow>
               (\<lparr>Error = Some (Errorf ''sign in anon: '' err),
                 Code = StatusInternalServerError,
                 Message = ''Failed to sign in as anonymous.'', Data = None\<rparr>, w')
           | (Inr response, w') \<Rightarrow>
               (\<lparr>Error = None, Code = StatusOK,
                 Message = ''Successfully signed in as anonymous.'',
                 Data = Some response\<rparr>, w')))"

definition SignOut ::
  "(string \<Rightarrow> goerror + signOutRequest) \<Rightarrow> ('s, 'sess, 'anon) user_Server \<Rightarrow> 'f Request \<Rightarrow>
   ('f user_call, 's) world \<Rightarrow> unit Response \<times> ('f user_call, 's) world" where
  "SignOut decode s r w =
     (case decode (Body r) of
        Inl err \<Rightarrow>
          (\<lparr>Error = Some (Errorf ''sign out: '' err), Code = StatusBadRequest,
            Message = ''Invalid sign out request.'', Data = None\<rparr>, w)
      | Inr data \<Rightarrow>
          (case invoke (Repo_invalidateSession (signOutRequest.Token data) (signOutRequest.UserID data))
                  (repo_invalidateSession (repository s)
                     (signOutRequest.Token data) (signOutRequest.UserID data)) w of
             (Some err, w') \<Rightarrow>
               (\<lparr>Error = Some (Errorf ''sign out: '' err),
                 Code = StatusInternalServerError,
                 Message = ''Failed to sign out.'', Data = None\<rparr>, w')
           | (None, w') \<Rightarrow>
               (\<lparr>Error = None, Code = StatusOK,
                 Message = ''Successfully signed out.'', Data = None\<rparr>, w')))"

definition GetSession ::
  "('s, 'sess, 'anon) user_Server \<Rightarrow> 'f Request \<Rightarrow>
   ('f user_call, 's) world \<Rightarrow> 'sess Response \<times> ('f user_call, 's) world" where
  "GetSession s r w =
     (let token = Values_Get (URL_Query r) ''token'' in
      case invoke (Repo_validateSessionToken token)
             (repo_validateSessionToken (repository s) token) w of
        (Inl err, w') \<Rightarrow>
          (\<lparr>Error = Some (Errorf ''get session: '' err), Code = StatusInternalServerError,
            Message = ''Failed to get user session.'', Data = None\<rparr>, w')
      | (Inr result, w') \<Rightarrow>
          (\<lparr>Error = None, Code = StatusOK,
            Message = ''Successfully fetched user session.'', Data = Some result\<rparr>, w'))"

text \<open>
  \<open>AuthMiddleware(next)\<close>: the handler it returns, applied to a response writer and a
  request. \<open>next\<close> is the wrapped handler, a collaborator like the repository: it may
  write to the response writer and change the state outside. \<open>slog.Error(err.Error())\<close>
  is recorded as a call carrying the error whose text is logged.
\<close>

definition AuthMiddleware ::
  "('s, 'sess, 'anon) user_Server \<Rightarrow>
   (ResponseWriter \<Rightarrow> 'f Request \<Rightarrow> 's \<Rightarrow> ResponseWriter \<times> 's) \<Rightarrow>
   ResponseWriter \<Rightarrow> 'f Request \<Rightarrow>
   ('f user_call, 's) world \<Rightarrow> ResponseWriter \<times> ('f user_call, 's) world" where
  "AuthMiddleware s next rw r w =
     (case Cookie_of r ''session'' of
        Inl err \<Rightarrow>
          (case invoke (Slog_Error err) (\<lambda>st. ((), st)) w of
             (_, w1) \<Rightarrow> (http_Error rw ''Unauthorized'' StatusUnauthorized, w1))
      | Inr token \<Rightarrow>
          (case invoke (Repo_validateSessionToken (Value token))
                  (repo_validateSessionToken (repository s) (Value token)) w of
             (Inl err, w1) \<Rightarrow>
               (case invoke (Slog_Error err) (\<lambda>st. ((), st)) w1 of
                  (_, w2) \<Rightarrow> (http_Error rw ''Unauthorized'' StatusUnauthorized, w2))
           | (Inr _, w1) \<Rightarrow> invoke (Next_ServeHTTP rw r) (next rw r) w1))"

section \<open>Package disaster\<close>

subsection \<open>Data\<close>

type_synonym citizenStatus = string

record createReportRequest =
  UserID :: "string option"
  Name :: string
  Status :: citizenStatus
  RawSituation :: string
  PhotoURLs :: "string list"

text \<open>
  \<open>setResponderRequest\<close> is declared outside the two source files; the handler reads its
  field \<open>ReporterID\<close> only. Its other fields are the extension part of the record
  (type \<open>'z\<close>).
\<close>

record setResponderRequest =
  ReporterID :: string

subsection \<open>The repository, the uploader and the calls made to them\<close>

text \<open>
  The \<open>Repository\<close> interface of package disaster. The result types of the list
  operations (\<open>'reports\<close>) and of \<open>SetResponder\<close> (\<open>'resp\<close>) are declared outside the
  source files.
\<close>

record ('s, 'z, 'reports, 'resp) disaster_Repository =
  repo_ListDisasterReportsByReporter :: "string \<Rightarrow> 's \<Rightarrow> (goerror + 'reports) \<times> 's"
  repo_ListDisasterReports :: "'s \<Rightarrow> (goerror + 'reports) \<times> 's"
  repo_CreateDisasterReport :: "createReportRequest \<Rightarrow> 's \<Rightarrow> goerror option \<times> 's"
  repo_SetResponder :: "'z setResponderRequest_scheme \<Rightarrow> 's \<Rightarrow> (goerror + 'resp) \<times> 's"

record ('s, 'z, 'reports, 'resp) disaster_Server =
  repository :: "('s, 'z, 'reports, 'resp) disaster_Repository"
  baseURL :: string

datatype ('f, 'z) disaster_call =
    Repo_ListDisasterReportsByReporter string
  | Repo_ListDisasterReports
  | Repo_CreateDisasterReport createReportRequest
  | Repo_SetResponder "'z setResponderRequest_scheme"
  | Call_uploadPhoto 'f string

fun is_create_call :: "('f, 'z) disaster_call \<Rightarrow> bool" where
  "is_create_call (Repo_CreateDisasterReport _) = True"
| "is_create_call _ = False"

text \<open>
  \<open>uploadPhoto(fileHeader, baseURL)\<close> is a function of the package defined outside the
  two source files: it is a parameter of the handler, a collaborator with state of its own.
\<close>

type_synonym ('f, 's) uploader = "'f \<Rightarrow> string \<Rightarrow> 's \<Rightarrow> (goerror + string) \<times> 's"

subsection \<open>Handlers\<close>

definition ListDisasterReportsByReporter ::
  "('s, 'z, 'reports, 'resp) disaster_Server \<Rightarrow> 'f Request \<Rightarrow>
   (('f, 'z) disaster_call, 's) world \<Rightarrow>
   'reports Response \<times> (('f, 'z) disaster_call, 's) world" where
  "ListDisasterReportsByReporter s r w =
     (let reporterID = PathValue r ''reporterId'' in
      case invoke (Repo_ListDisasterReportsByReporter reporterID)
             (repo_ListDisasterReportsByReporter (repository s) reporterID) w of
        (Inl err, w') \<Rightarrow>
          (\<lparr>Error = Some (Errorf ''get disaster reports by user: '' err),
            Code = StatusInternalServerError,
            Message = ''Failed to get disaster reports.'', Data = None\<rparr>, w')
      | (Inr reports, w') \<Rightarrow>
          (\<lparr>Error = None, Code = StatusOK,
            Message = ''Successfully fetched disaster reports.'', Data = Some reports\<rparr>, w'))"

definition CreateDisasterReportJson ::
  "(string \<Rightarrow> goerror + createReportRequest) \<Rightarrow> ('s, 'z, 'reports, 'resp) disaster_Server \<Rightarrow>
   'f Request \<Rightarrow> (('f, 'z) disaster_call, 's) world \<Rightarrow>
   unit Response \<times> (('f, 'z) disaster_call, 's) world" where
  "CreateDisasterReportJson decode s r w =
     (case decode (Body r) of
        Inl err \<Rightarrow>
          (\<lparr>Error = Some (Errorf ''create disaster report: '' err), Code = StatusBadRequest,
            Message = ''Failed to create disaster report.'', Data = None\<rparr>, w)
      | Inr data \<Rightarrow>
          (case invoke (Repo_CreateDisasterReport data)
                  (repo_CreateDisasterReport (repository s) data) w of
             (Some err, w') \<Rightarrow>
               (\<lparr>Error = Some (Errorf ''create disaster report: '' err),
                 Code = StatusInternalServerError,
                 Message = ''Failed to create disaster report.'', Data = None\<rparr>, w')
           | (None, w') \<Rightarrow>
               (\<lparr>Error = None, Code = StatusCreated,
                 Message = ''Successfully created disaster report.'', Data = None\<rparr>, w')))"

text \<open>\<open>const maxBodySize = 10 << 20\<close>\<close>

definition maxBodySize :: nat where
  "maxBodySize = push_bit 20 10"

text \<open>
  Lines 99 to 111 of the multipart handler: the report built from the form values of the
  parsed request, before any photo is uploaded.
\<close>

definition new_disasterReport :: "'f Request \<Rightarrow> createReportRequest" where
  "new_disasterReport r =
     (let userIDstr = FormValue r ''userId'';
          userID = (if userIDstr \<noteq> [] then Some userIDstr else None)
      in \<lparr>UserID = userID,
          Name = FormValue r ''name'',
          Status = FormValue r ''status'',
          RawSituation = FormValue r ''rawSituation'',
          PhotoURLs = []\<rparr>)"

text \<open>
  \<open>r.MultipartForm.File["photos"]\<close> behind the two nil checks of line 113: no files when
  the form or its file map is nil or has no such key.
\<close>

definition form_photos :: "'f Request \<Rightarrow> 'f list" where
  "form_photos r =
     (case MultipartForm r of
        None \<Rightarrow> []
      | Some mf \<Rightarrow>
          (case File mf of
             None \<Rightarrow> []
           | Some files \<Rightarrow> (case files ''photos'' of None \<Rightarrow> [] | Some photos \<Rightarrow> photos)))"

text \<open>
  The loop of lines 117 to 128 over the file headers still to upload, with the URLs
  collected so far: it stops at the first upload that fails, with that error.
\<close>

fun upload_photos ::
  "('f, 's) uploader \<Rightarrow> string \<Rightarrow> 'f list \<Rightarrow> string list \<Rightarrow>
   (('f, 'z) disaster_call, 's) world \<Rightarrow>
   (goerror + string list) \<times> (('f, 'z) disaster_call, 's) world" where
  "upload_photos uploadPhoto base [] urls w = (Inr urls, w)"
| "upload_photos uploadPhoto base (fileHeader # rest) urls w =
     (case invoke (Call_uploadPhoto fileHeader base) (uploadPhoto fileHeader base) w of
        (Inl err, w') \<Rightarrow> (Inl err, w')
      | (Inr fileURL, w') \<Rightarrow> upload_photos uploadPhoto base rest (urls @ [fileURL]) w')"

text \<open>
  What the uploader itself returns when it is called on the files one after another, in
  the order of the list, starting in state \<open>st\<close>: the URLs, in the order of the files,
  and the state afterwards; \<open>None\<close> when one of the calls fails. The claims about upload
  order are stated against this function.
\<close>

fun uploads_in_order ::
  "('f, 's) uploader \<Rightarrow> string \<Rightarrow> 'f list \<Rightarrow> 's \<Rightarrow> (string list \<times> 's) option" where
  "uploads_in_order uploadPhoto base [] st = Some ([], st)"
| "uploads_in_order uploadPhoto base (f # fs) st =
     (case uploadPhoto f base st of
        (Inl err, st1) \<Rightarrow> None
      | (Inr url, st1) \<Rightarrow>
          (case uploads_in_order uploadPhoto base fs st1 of
             None \<Rightarrow> None
           | Some (urls, st2) \<Rightarrow> Some (url # urls, st2)))"

text \<open>
  \<open>CreateDisasterReport\<close>, the multipart handler. \<open>parseMultipartForm\<close> is
  \<open>r.ParseMultipartForm\<close>: it fails, or gives the request with its form filled in.
  \<open>http.MaxBytesReader\<close> is the body limit set on the request before parsing.
\<close>

definition CreateDisasterReport ::
  "('f Request \<Rightarrow> nat \<Rightarrow> goerror + 'f Request) \<Rightarrow> ('f, 's) uploader \<Rightarrow>
   ('s, 'z, 'reports, 'resp) disaster_Server \<Rightarrow> 'f Request \<Rightarrow>
   (('f, 'z) disaster_call, 's) world \<Rightarrow>
   unit Response \<times> (('f, 'z) disaster_call, 's) world" where
  "CreateDisasterReport parseMultipartForm uploadPhoto s r w =
     (case parseMultipartForm (r\<lparr>BodyLimit := Some maxBodySize\<rparr>) maxBodySize of
        Inl err \<Rightarrow>
          (\<lparr>Error = Some (Errorf ''create disaster report: '' err), Code = StatusBadRequest,
            Message = ''Failed to parse disaster report form data.'', Data = None\<rparr>, w)
      | Inr r' \<Rightarrow>
          (let disasterReport = new_disasterReport r' in
           case upload_photos uploadPhoto (baseURL s) (form_photos r')
                  (PhotoURLs disasterReport) w of
             (Inl err, w1) \<Rightarrow>
               (\<lparr>Error = Some (Errorf ''create disaster report: '' err),
                 Code = StatusInternalServerError,
                 Message = ''Failed to upload photo.'', Data = None\<rparr>, w1)
           | (Inr urls, w1) \<Rightarrow>
               (let disasterReport = disasterReport\<lparr>PhotoURLs := urls\<rparr> in
                case invoke (Repo_CreateDisasterReport disasterReport)
                       (repo_CreateDisasterReport (repository s) disasterReport) w1 of
                  (Some err, w2) \<Rightarrow>
                    (\<lparr>Error = Some (Errorf ''create disaster report: '' err),
                      Code = StatusInternalServerError,
                      Message = ''Failed to create disaster report.'', Data = None\<rparr>, w2)
                | (None, w2) \<Rightarrow>
                    (\<lparr>Error = None, Code = StatusCreated,
                      Message = ''Successfully created disaster report.'',
                      Data = None\<rparr>, w2))))"

definition ListDisasterReports ::
  "('s, 'z, 'reports, 'resp) disaster_Server \<Rightarrow> 'f Request \<Rightarrow>
   (('f, 'z) disaster_call, 's) world \<Rightarrow>
   'reports Response \<times> (('f, 'z) disaster_call, 's) world" where
  "ListDisasterReports s r w =
     (case invoke Repo_ListDisasterReports (repo_ListDisasterReports (repository s)) w of
        (Inl err, w') \<Rightarrow>
          (\<lparr>Error = Some (Errorf ''get disaster reports: '' err),
            Code = StatusInternalServerError,
            Message = ''Failed to get disaster reports.'', Data = None\<rparr>, w')
      | (Inr reports, w') \<Rightarrow>
          (\<lparr>Error = None, Code = StatusOK,
            Message = ''Successfully fetched disaster reports.'', Data = Some reports\<rparr>, w'))"

definition SetResponder ::
  "(string \<Rightarrow> goerror + 'z setResponderRequest_scheme) \<Rightarrow>
   ('s, 'z, 'reports, 'resp) disaster_Server \<Rightarrow> 'f Request \<Rightarrow>
   (('f, 'z) disaster_call, 's) world \<Rightarrow>
   'resp Response \<times> (('f, 'z) disaster_call, 's) world" where
  "SetResponder decode s r w =
     (case decode (Body r) of
        Inl err \<Rightarrow>
          (\<lparr>Error = Some (Errorf ''set responder: '' err), Code = StatusBadRequest,
            Message = ''Invalid set responder request.'', Data = None\<rparr>, w)
      | Inr data \<Rightarrow>
          (let reporterID = PathValue r ''reporterId'' in
           if ReporterID data \<noteq> reporterID
           then (\<lparr>Error = Some (ErrorString ''set responder: reporter ID mismatch''),
                  Code = StatusBadRequest,
                  Message = ''Reporter ID in path and body doesn't match.'', Data = None\<rparr>, w)
           else
             (case invoke (Repo_SetResponder data) (repo_SetResponder (repository s) data) w of
                (Inl err, w') \<Rightarrow>
                  (\<lparr>Error = Some (Errorf ''set responder: '' err), Code = StatusBadRequest,
                    Message = ''Failed to set responder.'', Data = None\<rparr>, w')
              | (Inr resp, w') \<Rightarrow>
                  (\<lparr>Error = None, Code = StatusOK,
                    Message = ''Successfully set responder.'', Data = Some resp\<rparr>, w'))))"

section \<open>Stub collaborators and sample requests\<close>

text \<open>
  Collaborators for running the handlers on concrete inputs. A stub repository returns
  a fixed result from each method and counts, in its state, the calls it receives; the
  stub uploader and the stub downstream handler count in the same state.
\<close>

definition stub_user_Server ::
  "goerror option \<Rightarrow> (goerror + signInResponse) \<Rightarrow> (goerror + string) \<Rightarrow> goerror option \<Rightarrow>
   (goerror + string) \<Rightarrow> (nat, string, string) user_Server" where
  "stub_user_Server signUp signIn anon invalidate validate =
     \<lparr>user_Server.repository =
        \<lparr>repo_SignUp = (\<lambda>_ n. (signUp, Suc n)),
         repo_SignIn = (\<lambda>_ n. (signIn, Suc n)),
         repo_SignInAnonymous = (\<lambda>_ n. (anon, Suc n)),
         repo_invalidateSession = (\<lambda>_ _ n. (invalidate, Suc n)),
         repo_validateSessionToken = (\<lambda>_ n. (validate, Suc n))\<rparr>\<rparr>"

definition stub_disaster_Server ::
  "goerror option \<Rightarrow> (goerror + string) \<Rightarrow> (nat, unit, string list, string) disaster_Server" where
  "stub_disaster_Server create setResponder =
     \<lparr>disaster_Server.repository =
        \<lparr>repo_ListDisasterReportsByReporter = (\<lambda>_ n. (Inr [], Suc n)),
         repo_ListDisasterReports = (\<lambda>n. (Inr [], Suc n)),
         repo_CreateDisasterReport = (\<lambda>_ n. (create, Suc n)),
         repo_SetResponder = (\<lambda>_ n. (setResponder, Suc n))\<rparr>,
      baseURL = ''http://host''\<rparr>"

text \<open>
  A file header is its file name here. The stub uploader refuses the file named
  \<open>bad.png\<close> and otherwise returns the base URL followed by the number of the upload and
  the file name.
\<close>

definition stub_uploadPhoto :: "(string, nat) uploader" where
  "stub_uploadPhoto fileHeader base n =
     (if fileHeader = ''bad.png'' then (Inl (ErrorString ''upload refused''), Suc n)
      else (Inr (base @ (if n = 0 then ''/0/'' else ''/n/'') @ fileHeader), Suc n))"

definition stub_next :: "ResponseWriter \<Rightarrow> string Request \<Rightarrow> nat \<Rightarrow> ResponseWriter \<times> nat" where
  "stub_next rw r n = (WriteHeader rw 200, Suc n)"

definition decode_fails :: "string \<Rightarrow> goerror + 'a" where
  "decode_fails body = Inl (ErrorString ''unexpected EOF'')"

definition decode_gives :: "'a \<Rightarrow> string \<Rightarrow> goerror + 'a" where
  "decode_gives x body = Inr x"

definition stub_parseMultipartForm ::
  "(string \<rightharpoonup> string list) \<Rightarrow> string list \<Rightarrow> string Request \<Rightarrow> nat \<Rightarrow> goerror + string Request" where
  "stub_parseMultipartForm vals photos r limit =
     Inr (r\<lparr>Form := Some vals,
            MultipartForm := Some \<lparr>FormValue_map = vals, File = Some [''photos'' \<mapsto> photos]\<rparr>\<rparr>)"

definition sample_Request :: "string Request" where
  "sample_Request =
     \<lparr>Body = ''{}'', BodyLimit = None, URL_Query = [''token'' \<mapsto> [''tok1'']],
      Cookies = [\<lparr>Cookie.Name = ''session'', Value = ''tok1''\<rparr>],
      PathValues = [''reporterId'' \<mapsto> ''R1''], Form = None, MultipartForm = None\<rparr>"

definition fresh_world :: "('e, nat) world" where
  "fresh_world = \<lparr>calls = [], store = 0\<rparr>"

definition fresh_writer :: ResponseWriter where
  "fresh_writer = \<lparr>status = None, written = []\<rparr>"

definition sample_signUpRequest :: signUpRequest where
  "sample_signUpRequest =
     \<lparr>signUpRequest.Email = ''ann@example.org'', Password = ''pw'',
      FirstName = ''Ann'', MiddleName = None, LastName = ''Lee'', BirthDate = 0,
      Role = citizen, StatusUpdateFrequency = 5, IsLocationShared = True\<rparr>"

definition sample_signInRequest :: signInRequest where
  "sample_signInRequest = \<lparr>signInRequest.Email = ''ann@example.org'', Password = ''pw''\<rparr>"

definition sample_signInResponse :: signInResponse where
  "sample_signInResponse =
     \<lparr>User = \<lparr>BasicInfo.UserID = ''u1'', FirstName = ''Ann'', MiddleName = None,
               LastName = ''Lee'', CreatedAt = 0, UpdatedAt = 0,
               Email = ''ann@example.org'', BirthDate = 0, Role = citizen,
               StatusUpdateFrequency = 5, IsLocationShared = True\<rparr>,
      Token = ''tok1''\<rparr>"

section \<open>Facts about the model\<close>

lemmas http_status =
  StatusOK_def StatusCreated_def StatusBadRequest_def StatusUnauthorized_def
  StatusNotFound_def StatusConflict_def StatusInternalServerError_def


subsection \<open>Sign-in, sign-up and session lookup\<close>

lemma invoke_eq:
  "f (store w) = (a, st') \<Longrightarrow> invoke ev f w = (a, \<lparr>calls = calls w @ [ev], store = st'\<rparr>)"
  by (simp add: invoke_def)

lemma assert_PgError_unique_violation:
  "(case assert_PgError err of Some c \<Rightarrow> c = ''23505'' | None \<Rightarrow> False) \<longleftrightarrow>
   err = PgError ''23505''"
  by (cases err) auto

lemma SignUp_decoded:
  assumes "decode (Body r) = Inr data"
    and "repo_SignUp (user_Server.repository s) data (store w) = (res, st')"
  shows "SignUp decode s r w =
     ((case res of
         Some err \<Rightarrow>
           if err = PgError ''23505''
           then \<lparr>Error = Some (Errorf ''sign up: '' err), Code = 409,
                  Message = ''User '' @ signUpRequest.Email data @ '' already exists.'',
                  Data = None\<rparr>
           else \<lparr>Error = Some (Errorf ''sign up: '' err), Code = 500,
                  Message = ''Failed to sign up.'', Data = None\<rparr>
       | None \<Rightarrow>
           \<lparr>Error = None, Code = 201, Message = ''Successfully signed up.'', Data = None\<rparr>),
      \<lparr>calls = calls w @ [Repo_SignUp data], store = st'\<rparr>)"
  using assms
  by (simp add: SignUp_def invoke_eq http_status assert_PgError_unique_violation
           split: option.splits)

lemma SignIn_decoded:
  assumes "decode (Body r) = Inr data"
    and "repo_SignIn (user_Server.repository s) data (store w) = (res, st')"
  shows "SignIn decode s r w =
     ((case res of
         Inl err \<Rightarrow>
           if errors_Is err ErrNoRows
           then \<lparr>Error = Some (Errorf ''sign in: '' err), Code = 404,
                  Message = ''Invalid credentials.'', Data = None\<rparr>
           else if errors_Is err errInvalidPassword
           then \<lparr>Error = Some (Errorf ''sign in: '' err), Code = 401,
                  Message = ''Invalid password.'', Data = None\<rparr>
           else \<lparr>Error = Some (Errorf ''sign in: '' err), Code = 500,
                  Message = ''Failed to sign in.'', Data = None\<rparr>
       | Inr response \<Rightarrow>
           \<lparr>Error = None, Code = 200, Message = ''Successfully signed in.'',
             Data = Some response\<rparr>),
      \<lparr>calls = calls w @ [Repo_SignIn data], store = st'\<rparr>)"
  using assms by (simp add: SignIn_def invoke_eq http_status split: sum.splits)

lemma GetSession_eq:
  assumes "repo_validateSessionToken (user_Server.repository s)
             (Values_Get (URL_Query r) ''token'') (store w) = (res, st')"
  shows "GetSession s r w =
     ((case res of
         Inl err \<Rightarrow>
           \<lparr>Error = Some (Errorf ''get session: '' err), Code = 500,
             Message = ''Failed to get user session.'', Data = None\<rparr>
       | Inr result \<Rightarrow>
           \<lparr>Error = None, Code = 200, Message = ''Successfully fetched user session.'',
             Data = Some result\<rparr>),
      \<lparr>calls = calls w @ [Repo_validateSessionToken (Values_Get (URL_Query r) ''token'')],
        store = st'\<rparr>)"
  using assms by (simp add: GetSession_def invoke_eq http_status split: sum.splits)

text \<open>
  The sign-in handler tests for \<open>pgx.ErrNoRows\<close> before it tests for
  \<open>errInvalidPassword\<close>. An error that is both, such as the two sentinels joined, is an
  invalid-password error and is answered with 404, not 401.
\<close>

theorem SignIn_joined_error_is_404:
  "errors_Is (Join [ErrNoRows, errInvalidPassword]) errInvalidPassword \<and>
   decode_gives sample_signInRequest (Body sample_Request) = Inr sample_signInRequest \<and>
   Code (fst (SignIn (decode_gives sample_signInRequest)
          (stub_user_Server None (Inl (Join [ErrNoRows, errInvalidPassword])) (Inr []) None
             (Inr []))
          sample_Request fresh_world)) = 404 \<and>
   Code (fst (SignIn (decode_gives sample_signInRequest)
          (stub_user_Server None (Inl (Join [ErrNoRows, errInvalidPassword])) (Inr []) None
             (Inr []))
          sample_Request fresh_world)) \<noteq> 401"
  by (simp add: SignIn_def decode_gives_def stub_user_Server_def fresh_world_def invoke_def
        http_status)

text \<open>
  Claim C2, amended. When the body of a sign-in request decodes, the response follows the
  result of the repository's \<open>SignIn\<close>: an error that is \<open>pgx.ErrNoRows\<close> (no matching
  row) gives code 404 with the message "Invalid credentials."; an error that is
  \<open>errInvalidPassword\<close> and is not \<open>pgx.ErrNoRows\<close> gives code 401; any other error
  gives code 500; and a payload gives code 200 with that payload as the data.
\<close>

theorem SignIn_result_mapping:
  assumes "decode (Body r) = Inr data"
    and "repo_SignIn (user_Server.repository s) data (store w) = (res, st')"
  shows "(\<forall>err. res = Inl err \<and> errors_Is err ErrNoRows \<longrightarrow>
            Code (fst (SignIn decode s r w)) = 404 \<and>
            Message (fst (SignIn decode s r w)) = ''Invalid credentials.'') \<and>
         (\<forall>err. res = Inl err \<and> \<not> errors_Is err ErrNoRows \<and>
                errors_Is err errInvalidPassword \<longrightarrow>
            Code (fst (SignIn decode s r w)) = 401) \<and>
         (\<forall>err. res = Inl err \<and> \<not> errors_Is err ErrNoRows \<and>
                \<not> errors_Is err errInvalidPassword \<longrightarrow>
            Code (fst (SignIn decode s r w)) = 500) \<and>
         (\<forall>payload. res = Inr payload \<longrightarrow>
            Code (fst (SignIn decode s r w)) = 200 \<and>
            Data (fst (SignIn decode s r w)) = Some payload)"
proof -
  note eq = SignIn_decoded [of decode r data s w res st', OF assms]
  show ?thesis
    by (auto simp: eq)
qed

theorem SignIn_result_mapping_witness:
  "Code (fst (SignIn (decode_gives sample_signInRequest)
            (stub_user_Server None (Inl (Errorf ''find user: '' ErrNoRows)) (Inr []) None (Inr []))
            sample_Request fresh_world)) = 404 \<and>
   Code (fst (SignIn (decode_gives sample_signInRequest)
            (stub_user_Server None (Inl (Join [ErrorString ''audit'', errInvalidPassword]))
               (Inr []) None (Inr []))
            sample_Request fresh_world)) = 401 \<and>
   Code (fst (SignIn (decode_gives sample_signInRequest)
            (stub_user_Server None (Inl (ErrorString ''connection lost'')) (Inr []) None (Inr []))
            sample_Request fresh_world)) = 500 \<and>
   Code (fst (SignIn (decode_gives sample_signInRequest)
            (stub_user_Server None (Inr sample_signInResponse) (Inr []) None (Inr []))
            sample_Request fresh_world)) = 200 \<and>
   Data (fst (SignIn (decode_gives sample_signInRequest)
            (stub_user_Server None (Inr sample_signInResponse) (Inr []) None (Inr []))
            sample_Request fresh_world)) = Some sample_signInResponse"
  using
    SignIn_result_mapping [of "decode_gives sample_signInRequest" sample_Request
      sample_signInRequest
      "stub_user_Server None (Inl (Errorf ''find user: '' ErrNoRows)) (Inr []) None (Inr [])"
      fresh_world "Inl (Errorf ''find user: '' ErrNoRows)" 1]
    SignIn_result_mapping [of "decode_gives sample_signInRequest" sample_Request
      sample_signInRequest
      "stub_user_Server None (Inl (Join [ErrorString ''audit'', errInvalidPassword]))
         (Inr []) None (Inr [])"
      fresh_world "Inl (Join [ErrorString ''audit'', errInvalidPassword])" 1]
    SignIn_result_mapping [of "decode_gives sample_signInRequest" sample_Request
      sample_signInRequest
      "stub_user_Server None (Inl (ErrorString ''connection lost'')) (Inr []) None (Inr [])"
      fresh_world "Inl (ErrorString ''connection lost'')" 1]
    SignIn_result_mapping [of "decode_gives sample_signInRequest" sample_Request
      sample_signInRequest
      "stub_user_Server None (Inr sample_signInResponse) (Inr []) None (Inr [])"
      fresh_world "Inr sample_signInResponse" 1]
  by (simp add: decode_gives_def stub_user_Server_def fresh_world_def)

text \<open>
  Claim C3. When the body of a sign-up request decodes, the response follows the result of
  the repository's \<open>SignUp\<close>: the PostgreSQL uniqueness violation (a \<open>PgError\<close> of code
  23505) gives code 409 with a message naming the email of the request; any other error
  gives code 500; success gives code 201 with no data.
\<close>

theorem SignUp_result_mapping:
  assumes "decode (Body r) = Inr data"
    and "repo_SignUp (user_Server.repository s) data (store w) = (res, st')"
  shows "(res = Some (PgError ''23505'') \<longrightarrow>
            Code (fst (SignUp decode s r w)) = 409 \<and>
            Message (fst (SignUp decode s r w)) =
              ''User '' @ signUpRequest.Email data @ '' already exists.'') \<and>
         (\<forall>err. res = Some err \<and> err \<noteq> PgError ''23505'' \<longrightarrow>
            Code (fst (SignUp decode s r w)) = 500) \<and>
         (res = None \<longrightarrow>
            Code (fst (SignUp decode s r w)) = 201 \<and>
            Data (fst (SignUp decode s r w)) = None)"
proof -
  note eq = SignUp_decoded [of decode r data s w res st', OF assms]
  show ?thesis by (auto simp: eq)
qed

theorem SignUp_result_mapping_witness:
  "Code (fst (SignUp (decode_gives sample_signUpRequest)
          (stub_user_Server (Some (PgError ''23505'')) (Inl ErrNoRows) (Inr []) None (Inr []))
          sample_Request fresh_world)) = 409 \<and>
   Message (fst (SignUp (decode_gives sample_signUpRequest)
          (stub_user_Server (Some (PgError ''23505'')) (Inl ErrNoRows) (Inr []) None (Inr []))
          sample_Request fresh_world)) = ''User ann@example.org already exists.'' \<and>
   Code (fst (SignUp (decode_gives sample_signUpRequest)
          (stub_user_Server (Some (PgError ''23503'')) (Inl ErrNoRows) (Inr []) None (Inr []))
          sample_Request fresh_world)) = 500 \<and>
   Code (fst (SignUp (decode_gives sample_signUpRequest)
          (stub_user_Server None (Inl ErrNoRows) (Inr []) None (Inr []))
          sample_Request fresh_world)) = 201 \<and>
   Data (fst (SignUp (decode_gives sample_signUpRequest)
          (stub_user_Server None (Inl ErrNoRows) (Inr []) None (Inr []))
          sample_Request fresh_world)) = None"
  using
    SignUp_result_mapping [of "decode_gives sample_signUpRequest" sample_Request
      sample_signUpRequest
      "stub_user_Server (Some (PgError ''23505'')) (Inl ErrNoRows) (Inr []) None (Inr [])"
      fresh_world "Some (PgError ''23505'')" 1]
    SignUp_result_mapping [of "decode_gives sample_signUpRequest" sample_Request
      sample_signUpRequest
      "stub_user_Server (Some (PgError ''23503'')) (Inl ErrNoRows) (Inr []) None (Inr [])"
      fresh_world "Some (PgError ''23503'')" 1]
    SignUp_result_mapping [of "decode_gives sample_signUpRequest" sample_Request
      sample_signUpRequest
      "stub_user_Server None (Inl ErrNoRows) (Inr []) None (Inr [])"
      fresh_world "None" 1]
  by (simp add: decode_gives_def stub_user_Server_def fresh_world_def sample_signUpRequest_def)



text \<open>
  Claim C7. \<open>GetSession\<close> answers every failure of the session-token validation,
  whatever the error, with code 500 and the same message, and a successful validation with
  code 200 and the validation result as the data.
\<close>

theorem GetSession_result_mapping:
  assumes "repo_validateSessionToken (user_Server.repository s)
             (Values_Get (URL_Query r) ''token'') (store w) = (res, st')"
  shows "(\<forall>err. res = Inl err \<longrightarrow>
            Code (fst (GetSession s r w)) = 500 \<and>
            Message (fst (GetSession s r w)) = ''Failed to get user session.'' \<and>
            Data (fst (GetSession s r w)) = None) \<and>
         (\<forall>result. res = Inr result \<longrightarrow>
            Code (fst (GetSession s r w)) = 200 \<and>
            Data (fst (GetSession s r w)) = Some result)"
proof -
  note eq = GetSession_eq [of s r w res st', OF assms]
  show ?thesis by (auto simp: eq)
qed

theorem GetSession_result_mapping_witness:
  "Code (fst (GetSession
       (stub_user_Server None (Inl ErrNoRows) (Inr []) None (Inl (ErrorString ''invalid token'')))
       sample_Request fresh_world)) = 500 \<and>
   Code (fst (GetSession
       (stub_user_Server None (Inl ErrNoRows) (Inr []) None (Inl (ErrorString ''connection lost'')))
       sample_Request fresh_world)) = 500 \<and>
   Code (fst (GetSession
       (stub_user_Server None (Inl ErrNoRows) (Inr []) None (Inr ''session of u1''))
       sample_Request fresh_world)) = 200 \<and>
   Data (fst (GetSession
       (stub_user_Server None (Inl ErrNoRows) (Inr []) None (Inr ''session of u1''))
       sample_Request fresh_world)) = Some ''session of u1''"
  using
    GetSession_result_mapping [of
      "stub_user_Server None (Inl ErrNoRows) (Inr []) None (Inl (ErrorString ''invalid token''))"
      sample_Request fresh_world "Inl (ErrorString ''invalid token'')" 1]
    GetSession_result_mapping [of
      "stub_user_Server None (Inl ErrNoRows) (Inr []) None (Inl (ErrorString ''connection lost''))"
      sample_Request fresh_world "Inl (ErrorString ''connection lost'')" 1]
    GetSession_result_mapping [of
      "stub_user_Server None (Inl ErrNoRows) (Inr []) None (Inr ''session of u1'')"
      sample_Request fresh_world "Inr ''session of u1''" 1]
  by (simp add: stub_user_Server_def fresh_world_def)


subsection \<open>The authentication middleware\<close>

lemma http_Error_status:
  "status rw = None \<Longrightarrow> status (http_Error rw msg code) = Some code"
  by (simp add: http_Error_def WriteHeader_def)

lemma Cookie_of_absent:
  "\<forall>c \<in> set (Cookies r). Cookie.Name c \<noteq> name \<Longrightarrow> Cookie_of r name = Inl ErrNoCookie"
proof -
  assume "\<forall>c \<in> set (Cookies r). Cookie.Name c \<noteq> name"
  then have "find (\<lambda>c. Cookie.Name c = name) (Cookies r) = None"
    by (simp add: find_None_iff)
  then show ?thesis
    by (simp add: Cookie_of_def)
qed

lemma new_calls_append [simp]:
  "new_calls w \<lparr>calls = calls w @ cs, store = st\<rparr> = cs"
  by (simp add: new_calls_def)

lemma AuthMiddleware_no_cookie:
  assumes "Cookie_of r ''session'' = Inl err"
  shows "AuthMiddleware s next rw r w =
           (http_Error rw ''Unauthorized'' 401,
            \<lparr>calls = calls w @ [Slog_Error err], store = store w\<rparr>)"
  using assms by (simp add: AuthMiddleware_def invoke_def http_status)

lemma AuthMiddleware_invalid:
  assumes "Cookie_of r ''session'' = Inr token"
    and "repo_validateSessionToken (user_Server.repository s) (Value token) (store w) = (Inl err, st1)"
  shows "AuthMiddleware s next rw r w =
           (http_Error rw ''Unauthorized'' 401,
            \<lparr>calls = calls w @ [Repo_validateSessionToken (Value token), Slog_Error err],
              store = st1\<rparr>)"
  using assms by (simp add: AuthMiddleware_def invoke_def http_status)

lemma AuthMiddleware_valid:
  assumes "Cookie_of r ''session'' = Inr token"
    and "repo_validateSessionToken (user_Server.repository s) (Value token) (store w) = (Inr res, st1)"
  shows "AuthMiddleware s next rw r w =
           (fst (next rw r st1),
            \<lparr>calls = calls w @ [Repo_validateSessionToken (Value token), Next_ServeHTTP rw r],
              store = snd (next rw r st1)\<rparr>)"
  using assms by (simp add: AuthMiddleware_def invoke_def http_status split: prod.splits)

text \<open>
  Claim C6. \<open>AuthMiddleware\<close>: when the request has no cookie named "session", or the
  repository rejects the cookie's value, the middleware answers with \<open>http.Error\<close> of
  "Unauthorized" and 401 (status 401 on a writer whose status is not yet written) and the
  wrapped handler is not called; when the repository accepts the value, the calls are the
  validation followed by the wrapped handler on the very writer and request the
  middleware received, and the outcome is the wrapped handler's.
\<close>

theorem AuthMiddleware_gate:
  "(((\<forall>c \<in> set (Cookies r). Cookie.Name c \<noteq> ''session'') \<or>
     (\<exists>token err st1. Cookie_of r ''session'' = Inr token \<and>
        repo_validateSessionToken (user_Server.repository s) (Value token) (store w) =
          (Inl err, st1))) \<longrightarrow>
      fst (AuthMiddleware s next rw r w) = http_Error rw ''Unauthorized'' 401 \<and>
      (status rw = None \<longrightarrow> status (fst (AuthMiddleware s next rw r w)) = Some 401) \<and>
      \<not> list_ex is_next_call (new_calls w (snd (AuthMiddleware s next rw r w)))) \<and>
   (\<forall>token res st1. Cookie_of r ''session'' = Inr token \<and>
        repo_validateSessionToken (user_Server.repository s) (Value token) (store w) =
          (Inr res, st1) \<longrightarrow>
      fst (AuthMiddleware s next rw r w) = fst (next rw r st1) \<and>
      store (snd (AuthMiddleware s next rw r w)) = snd (next rw r st1) \<and>
      new_calls w (snd (AuthMiddleware s next rw r w)) =
        [Repo_validateSessionToken (Value token), Next_ServeHTTP rw r])"
proof (intro conjI impI allI)
  assume fail: "(\<forall>c \<in> set (Cookies r). Cookie.Name c \<noteq> ''session'') \<or>
     (\<exists>token err st1. Cookie_of r ''session'' = Inr token \<and>
        repo_validateSessionToken (user_Server.repository s) (Value token) (store w) =
          (Inl err, st1))"
  then consider
      (absent) "Cookie_of r ''session'' = Inl ErrNoCookie"
    | (invalid) token err st1 where "Cookie_of r ''session'' = Inr token"
        "repo_validateSessionToken (user_Server.repository s) (Value token) (store w) =
          (Inl err, st1)"
    using Cookie_of_absent by blast
  then have "fst (AuthMiddleware s next rw r w) = http_Error rw ''Unauthorized'' 401 \<and>
      \<not> list_ex is_next_call (new_calls w (snd (AuthMiddleware s next rw r w)))"
  proof cases
    case absent
    show ?thesis by (simp add: AuthMiddleware_no_cookie [OF absent])
  next
    case invalid
    show ?thesis by (simp add: AuthMiddleware_invalid [OF invalid])
  qed
  then show "fst (AuthMiddleware s next rw r w) = http_Error rw ''Unauthorized'' 401"
    and "\<not> list_ex is_next_call (new_calls w (snd (AuthMiddleware s next rw r w)))"
    and "status rw = None \<Longrightarrow> status (fst (AuthMiddleware s next rw r w)) = Some 401"
    by (simp_all add: http_Error_status)
next
  fix token res st1
  assume ok: "Cookie_of r ''session'' = Inr token \<and>
        repo_validateSessionToken (user_Server.repository s) (Value token) (store w) =
          (Inr res, st1)"
  note eq = AuthMiddleware_valid [of r token s w res st1 "next" rw, OF conjunct1 [OF ok] conjunct2 [OF ok]]
  show "fst (AuthMiddleware s next rw r w) = fst (next rw r st1)"
    and "store (snd (AuthMiddleware s next rw r w)) = snd (next rw r st1)"
    and "new_calls w (snd (AuthMiddleware s next rw r w)) =
        [Repo_validateSessionToken (Value token), Next_ServeHTTP rw r]"
    by (simp_all add: eq)
qed

theorem AuthMiddleware_gate_witness:
  "status (fst (AuthMiddleware (stub_user_Server None (Inl ErrNoRows) (Inr []) None (Inr ''u1''))
       stub_next fresh_writer (sample_Request\<lparr>Cookies := []\<rparr>) fresh_world)) = Some 401 \<and>
   \<not> list_ex is_next_call (new_calls fresh_world
       (snd (AuthMiddleware (stub_user_Server None (Inl ErrNoRows) (Inr []) None (Inr ''u1''))
          stub_next fresh_writer (sample_Request\<lparr>Cookies := []\<rparr>) fresh_world))) \<and>
   status (fst (AuthMiddleware
       (stub_user_Server None (Inl ErrNoRows) (Inr []) None (Inl (ErrorString ''expired'')))
       stub_next fresh_writer sample_Request fresh_world)) = Some 401 \<and>
   \<not> list_ex is_next_call (new_calls fresh_world
       (snd (AuthMiddleware
          (stub_user_Server None (Inl ErrNoRows) (Inr []) None (Inl (ErrorString ''expired'')))
          stub_next fresh_writer sample_Request fresh_world))) \<and>
   new_calls fresh_world
       (snd (AuthMiddleware (stub_user_Server None (Inl ErrNoRows) (Inr []) None (Inr ''u1''))
          stub_next fresh_writer sample_Request fresh_world)) =
     [Repo_validateSessionToken ''tok1'', Next_ServeHTTP fresh_writer sample_Request] \<and>
   fst (AuthMiddleware (stub_user_Server None (Inl ErrNoRows) (Inr []) None (Inr ''u1''))
          stub_next fresh_writer sample_Request fresh_world) =
     \<lparr>status = Some 200, written = []\<rparr>"
proof -
  let ?ok = "stub_user_Server None (Inl ErrNoRows) (Inr []) None (Inr ''u1'')"
  let ?bad = "stub_user_Server None (Inl ErrNoRows) (Inr []) None (Inl (ErrorString ''expired''))"
  let ?token = "\<lparr>Cookie.Name = ''session'', Value = ''tok1''\<rparr>"
  have absent: "\<forall>c \<in> set (Cookies (sample_Request\<lparr>Cookies := []\<rparr>)). Cookie.Name c \<noteq> ''session''"
    by simp
  have present: "Cookie_of sample_Request ''session'' = Inr ?token"
    by (simp add: Cookie_of_def sample_Request_def)
  have invalid: "repo_validateSessionToken (user_Server.repository ?bad) (Value ?token)
      (store fresh_world) = (Inl (ErrorString ''expired''), 1)"
    by (simp add: stub_user_Server_def fresh_world_def)
  have valid: "repo_validateSessionToken (user_Server.repository ?ok) (Value ?token)
      (store fresh_world) = (Inr ''u1'', 1)"
    by (simp add: stub_user_Server_def fresh_world_def)
  have fresh: "status fresh_writer = None"
    by (simp add: fresh_writer_def)
  note no_cookie = AuthMiddleware_gate [of "sample_Request\<lparr>Cookies := []\<rparr>" ?ok fresh_world
      stub_next fresh_writer, THEN conjunct1, rule_format, OF disjI1, OF absent]
  note rejected = AuthMiddleware_gate [of sample_Request ?bad fresh_world
      stub_next fresh_writer, THEN conjunct1, rule_format, OF disjI2]
  note forwarded = AuthMiddleware_gate [of sample_Request ?ok fresh_world
      stub_next fresh_writer, THEN conjunct2, rule_format, OF conjI, OF present valid]
  have rejected': "status (fst (AuthMiddleware ?bad stub_next fresh_writer sample_Request
        fresh_world)) = Some 401 \<and>
      \<not> list_ex is_next_call (new_calls fresh_world
        (snd (AuthMiddleware ?bad stub_next fresh_writer sample_Request fresh_world)))"
    using rejected present invalid fresh by blast
  have next_eq: "stub_next fresh_writer sample_Request 1 = (\<lparr>status = Some 200, written = []\<rparr>, 2)"
    by (simp add: stub_next_def WriteHeader_def fresh_writer_def)
  show ?thesis
    using no_cookie fresh rejected' forwarded next_eq by (simp add: http_Error_status)
qed


subsection \<open>Bodies that do not decode, and \<open>SetResponder\<close>\<close>

lemma SignUp_decode_error:
  "decode (Body r) = Inl err \<Longrightarrow>
   SignUp decode s r w =
     (\<lparr>Error = Some (Errorf ''sign up: '' err), Code = 400,
       Message = ''Invalid sign up request.'', Data = None\<rparr>, w)"
  by (simp add: SignUp_def http_status)

lemma SignIn_decode_error:
  "decode (Body r) = Inl err \<Longrightarrow>
   SignIn decode s r w =
     (\<lparr>Error = Some (Errorf ''sign in: '' err), Code = 400,
       Message = ''Invalid sign in request.'', Data = None\<rparr>, w)"
  by (simp add: SignIn_def http_status)

lemma SignInAnonymous_decode_error:
  "decode (Body r) = Inl err \<Longrightarrow>
   SignInAnonymous decode s r w =
     (\<lparr>Error = Some (Errorf ''sign in anon: '' err), Code = 400,
       Message = ''Invalid anonymous sign in request.'', Data = None\<rparr>, w)"
  by (simp add: SignInAnonymous_def http_status)

lemma SignOut_decode_error:
  "decode (Body r) = Inl err \<Longrightarrow>
   SignOut decode s r w =
     (\<lparr>Error = Some (Errorf ''sign out: '' err), Code = 400,
       Message = ''Invalid sign out request.'', Data = None\<rparr>, w)"
  by (simp add: SignOut_def http_status)

lemma CreateDisasterReportJson_decode_error:
  "decode (Body r) = Inl err \<Longrightarrow>
   CreateDisasterReportJson decode s r w =
     (\<lparr>Error = Some (Errorf ''create disaster report: '' err), Code = 400,
       Message = ''Failed to create disaster report.'', Data = None\<rparr>, w)"
  by (simp add: CreateDisasterReportJson_def http_status)

lemma SetResponder_decode_error:
  "decode (Body r) = Inl err \<Longrightarrow>
   SetResponder decode s r w =
     (\<lparr>Error = Some (Errorf ''set responder: '' err), Code = 400,
       Message = ''Invalid set responder request.'', Data = None\<rparr>, w)"
  by (simp add: SetResponder_def http_status)

lemma SetResponder_mismatch:
  "decode (Body r) = Inr data \<Longrightarrow> ReporterID data \<noteq> PathValue r ''reporterId'' \<Longrightarrow>
   SetResponder decode s r w =
     (\<lparr>Error = Some (ErrorString ''set responder: reporter ID mismatch''), Code = 400,
       Message = ''Reporter ID in path and body doesn't match.'', Data = None\<rparr>, w)"
  by (simp add: SetResponder_def http_status)

lemma SetResponder_delegated:
  assumes "decode (Body r) = Inr data"
    and "ReporterID data = PathValue r ''reporterId''"
    and "repo_SetResponder (disaster_Server.repository s) data (store w) = (res, st')"
  shows "SetResponder decode s r w =
     ((case res of
         Inl err \<Rightarrow>
           \<lparr>Error = Some (Errorf ''set responder: '' err), Code = 400,
             Message = ''Failed to set responder.'', Data = None\<rparr>
       | Inr resp \<Rightarrow>
           \<lparr>Error = None, Code = 200, Message = ''Successfully set responder.'',
             Data = Some resp\<rparr>),
      \<lparr>calls = calls w @ [Repo_SetResponder data], store = st'\<rparr>)"
  using assms by (simp add: SetResponder_def invoke_eq http_status split: sum.splits)

text \<open>
  Claim C5. In each of the six handlers that decode a JSON body (\<open>SignUp\<close>, \<open>SignIn\<close>,
  \<open>SignInAnonymous\<close>, \<open>SignOut\<close>, \<open>CreateDisasterReportJson\<close>, \<open>SetResponder\<close>), a
  body whose decoding fails is answered with code 400, and the world is left as it was:
  no call to the repository is made and no state outside the handler changes.
\<close>

theorem decode_failure_400_without_repository:
  "(\<forall>err. decodeSignUp (Body r) = Inl err \<longrightarrow>
      Code (fst (SignUp decodeSignUp us r wu)) = 400 \<and>
      snd (SignUp decodeSignUp us r wu) = wu) \<and>
   (\<forall>err. decodeSignIn (Body r) = Inl err \<longrightarrow>
      Code (fst (SignIn decodeSignIn us r wu)) = 400 \<and>
      snd (SignIn decodeSignIn us r wu) = wu) \<and>
   (\<forall>err. decodeAnonymous (Body r) = Inl err \<longrightarrow>
      Code (fst (SignInAnonymous decodeAnonymous us r wu)) = 400 \<and>
      snd (SignInAnonymous decodeAnonymous us r wu) = wu) \<and>
   (\<forall>err. decodeSignOut (Body r) = Inl err \<longrightarrow>
      Code (fst (SignOut decodeSignOut us r wu)) = 400 \<and>
      snd (SignOut decodeSignOut us r wu) = wu) \<and>
   (\<forall>err. decodeReport (Body r) = Inl err \<longrightarrow>
      Code (fst (CreateDisasterReportJson decodeReport ds r wd)) = 400 \<and>
      snd (CreateDisasterReportJson decodeReport ds r wd) = wd) \<and>
   (\<forall>err. decodeSetResponder (Body r) = Inl err \<longrightarrow>
      Code (fst (SetResponder decodeSetResponder ds r wd)) = 400 \<and>
      snd (SetResponder decodeSetResponder ds r wd) = wd)"
  by (simp add: SignUp_decode_error SignIn_decode_error SignInAnonymous_decode_error
        SignOut_decode_error CreateDisasterReportJson_decode_error SetResponder_decode_error)

theorem decode_failure_400_without_repository_witness:
  "Code (fst (SignUp decode_fails
       (stub_user_Server None (Inl ErrNoRows) (Inr []) None (Inr [])) sample_Request
       fresh_world)) = 400 \<and>
   snd (SignUp decode_fails
       (stub_user_Server None (Inl ErrNoRows) (Inr []) None (Inr [])) sample_Request
       fresh_world) = fresh_world \<and>
   snd (SignIn decode_fails
       (stub_user_Server None (Inl ErrNoRows) (Inr []) None (Inr [])) sample_Request
       fresh_world) = fresh_world \<and>
   snd (SignInAnonymous decode_fails
       (stub_user_Server None (Inl ErrNoRows) (Inr []) None (Inr [])) sample_Request
       fresh_world) = fresh_world \<and>
   snd (SignOut decode_fails
       (stub_user_Server None (Inl ErrNoRows) (Inr []) None (Inr [])) sample_Request
       fresh_world) = fresh_world \<and>
   snd (CreateDisasterReportJson decode_fails
       (stub_disaster_Server None (Inr [])) sample_Request fresh_world) = fresh_world \<and>
   Code (fst (SetResponder decode_fails
       (stub_disaster_Server None (Inr [])) sample_Request fresh_world)) = 400 \<and>
   snd (SetResponder decode_fails
       (stub_disaster_Server None (Inr [])) sample_Request fresh_world) = fresh_world"
  using decode_failure_400_without_repository [of decode_fails sample_Request
      "stub_user_Server None (Inl ErrNoRows) (Inr []) None (Inr [])" fresh_world
      decode_fails decode_fails decode_fails decode_fails
      "stub_disaster_Server None (Inr [])" fresh_world decode_fails]
  by (simp add: decode_fails_def)

text \<open>
  Claim C4. \<open>SetResponder\<close>: when the decoded body's \<open>ReporterID\<close> differs from the
  path value \<open>reporterId\<close>, the answer is code 400 and the world is left as it was (the
  repository is not called); when they agree and the repository's \<open>SetResponder\<close> fails,
  with any error, the answer is code 400; when it succeeds, the answer is code 200 with
  the repository's result as the data.
\<close>

theorem SetResponder_result_mapping:
  "(\<forall>data. decode (Body r) = Inr data \<and> ReporterID data \<noteq> PathValue r ''reporterId'' \<longrightarrow>
      Code (fst (SetResponder decode s r w)) = 400 \<and>
      snd (SetResponder decode s r w) = w) \<and>
   (\<forall>data err st'. decode (Body r) = Inr data \<and>
        ReporterID data = PathValue r ''reporterId'' \<and>
        repo_SetResponder (disaster_Server.repository s) data (store w) = (Inl err, st') \<longrightarrow>
      Code (fst (SetResponder decode s r w)) = 400) \<and>
   (\<forall>data resp st'. decode (Body r) = Inr data \<and>
        ReporterID data = PathValue r ''reporterId'' \<and>
        repo_SetResponder (disaster_Server.repository s) data (store w) = (Inr resp, st') \<longrightarrow>
      Code (fst (SetResponder decode s r w)) = 200 \<and>
      Data (fst (SetResponder decode s r w)) = Some resp)"
proof (intro conjI allI impI)
  fix data
  assume "decode (Body r) = Inr data \<and> ReporterID data \<noteq> PathValue r ''reporterId''"
  then have eq: "SetResponder decode s r w =
     (\<lparr>Error = Some (ErrorString ''set responder: reporter ID mismatch''), Code = 400,
       Message = ''Reporter ID in path and body doesn't match.'', Data = None\<rparr>, w)"
    using SetResponder_mismatch [of decode r data s w] by blast
  show "Code (fst (SetResponder decode s r w)) = 400"
    and "snd (SetResponder decode s r w) = w"
    by (simp_all add: eq)
next
  fix data err st'
  assume h: "decode (Body r) = Inr data \<and>
        ReporterID data = PathValue r ''reporterId'' \<and>
        repo_SetResponder (disaster_Server.repository s) data (store w) = (Inl err, st')"
  note eq = SetResponder_delegated [of decode r data s w "Inl err" st']
  show "Code (fst (SetResponder decode s r w)) = 400"
    using h by (simp add: eq)
next
  fix data resp st'
  assume h: "decode (Body r) = Inr data \<and>
        ReporterID data = PathValue r ''reporterId'' \<and>
        repo_SetResponder (disaster_Server.repository s) data (store w) = (Inr resp, st')"
  note eq = SetResponder_delegated [of decode r data s w "Inr resp" st']
  show "Code (fst (SetResponder decode s r w)) = 200"
    and "Data (fst (SetResponder decode s r w)) = Some resp"
    using h by (simp_all add: eq)
qed

theorem SetResponder_result_mapping_witness:
  "Code (fst (SetResponder (decode_gives \<lparr>ReporterID = ''R2''\<rparr>)
       (stub_disaster_Server None (Inr ''assigned'')) sample_Request fresh_world)) = 400 \<and>
   snd (SetResponder (decode_gives \<lparr>ReporterID = ''R2''\<rparr>)
       (stub_disaster_Server None (Inr ''assigned'')) sample_Request fresh_world) = fresh_world \<and>
   Code (fst (SetResponder (decode_gives \<lparr>ReporterID = ''R1''\<rparr>)
       (stub_disaster_Server None (Inl (ErrorString ''connection lost''))) sample_Request
       fresh_world)) = 400 \<and>
   Code (fst (SetResponder (decode_gives \<lparr>ReporterID = ''R1''\<rparr>)
       (stub_disaster_Server None (Inr ''assigned'')) sample_Request fresh_world)) = 200 \<and>
   Data (fst (SetResponder (decode_gives \<lparr>ReporterID = ''R1''\<rparr>)
       (stub_disaster_Server None (Inr ''assigned'')) sample_Request fresh_world)) =
     Some ''assigned''"
  using
    SetResponder_result_mapping [of "decode_gives \<lparr>ReporterID = ''R2''\<rparr>" sample_Request
      "stub_disaster_Server None (Inr ''assigned'')" fresh_world]
    SetResponder_result_mapping [of "decode_gives \<lparr>ReporterID = ''R1''\<rparr>" sample_Request
      "stub_disaster_Server None (Inl (ErrorString ''connection lost''))" fresh_world]
    SetResponder_result_mapping [of "decode_gives \<lparr>ReporterID = ''R1''\<rparr>" sample_Request
      "stub_disaster_Server None (Inr ''assigned'')" fresh_world]
  by (simp add: decode_gives_def stub_disaster_Server_def fresh_world_def sample_Request_def
        PathValue_def)


subsection \<open>The multipart handler and its uploads\<close>

lemma upload_photos_success:
  "uploads_in_order uploadPhoto base fs (store w) = Some (urls, st') \<Longrightarrow>
   upload_photos uploadPhoto base fs acc w =
     (Inr (acc @ urls),
      \<lparr>calls = calls w @ map (\<lambda>f. Call_uploadPhoto f base) fs, store = st'\<rparr>)"
proof (induction fs arbitrary: acc w urls st')
  case Nil
  then show ?case by simp
next
  case (Cons f fs)
  from Cons.prems obtain url st1 us where
    first: "uploadPhoto f base (store w) = (Inr url, st1)" and
    rest: "uploads_in_order uploadPhoto base fs st1 = Some (us, st')" and
    urls: "urls = url # us"
    by (auto split: prod.splits sum.splits option.splits)
  let ?w1 = "\<lparr>calls = calls w @ [Call_uploadPhoto f base], store = st1\<rparr>"
  have "upload_photos uploadPhoto base fs (acc @ [url]) ?w1 =
     (Inr ((acc @ [url]) @ us),
      \<lparr>calls = calls ?w1 @ map (\<lambda>f. Call_uploadPhoto f base) fs, store = st'\<rparr>)"
    using rest by (intro Cons.IH) simp
  then show ?case
    using first urls by (simp add: invoke_eq)
qed

lemma upload_photos_failure:
  "uploads_in_order uploadPhoto base before (store w) = Some (urls, st1) \<Longrightarrow>
   uploadPhoto failing base st1 = (Inl err, st2) \<Longrightarrow>
   upload_photos uploadPhoto base (before @ failing # after) acc w =
     (Inl err,
      \<lparr>calls = calls w @ map (\<lambda>f. Call_uploadPhoto f base) (before @ [failing]),
        store = st2\<rparr>)"
proof (induction before arbitrary: acc w urls)
  case Nil
  then show ?case by (simp add: invoke_eq)
next
  case (Cons f fs)
  from Cons.prems(1) obtain url st0 us where
    first: "uploadPhoto f base (store w) = (Inr url, st0)" and
    rest: "uploads_in_order uploadPhoto base fs st0 = Some (us, st1)"
    by (auto split: prod.splits sum.splits option.splits)
  let ?w1 = "\<lparr>calls = calls w @ [Call_uploadPhoto f base], store = st0\<rparr>"
  have "upload_photos uploadPhoto base (fs @ failing # after) (acc @ [url]) ?w1 =
     (Inl err,
      \<lparr>calls = calls ?w1 @ map (\<lambda>f. Call_uploadPhoto f base) (fs @ [failing]),
        store = st2\<rparr>)"
    using rest Cons.prems(2) by (intro Cons.IH) simp_all
  then show ?case
    using first by (simp add: invoke_eq)
qed


lemma upload_photos_only_uploads:
  "upload_photos uploadPhoto base fs acc w = (res, w') \<Longrightarrow>
   \<exists>k. calls w' = calls w @ map (\<lambda>f. Call_uploadPhoto f base) (take k fs)"
proof (induction fs arbitrary: acc w)
  case Nil
  then show ?case by auto
next
  case (Cons f fs)
  obtain r1 st1 where first: "uploadPhoto f base (store w) = (r1, st1)"
    by (cases "uploadPhoto f base (store w)")
  let ?w1 = "\<lparr>calls = calls w @ [Call_uploadPhoto f base], store = st1\<rparr>"
  show ?case
  proof (cases r1)
    case (Inl err)
    with Cons.prems first have "calls w' = calls w @ [Call_uploadPhoto f base]"
      by (auto simp: invoke_eq)
    then show ?thesis
      by (intro exI [of _ 1]) simp
  next
    case (Inr url)
    with Cons.prems first
    have "upload_photos uploadPhoto base fs (acc @ [url]) ?w1 = (res, w')"
      by (simp add: invoke_eq)
    from Cons.IH [OF this] obtain k where
      "calls w' = calls ?w1 @ map (\<lambda>f. Call_uploadPhoto f base) (take k fs)" ..
    then show ?thesis
      by (intro exI [of _ "Suc k"]) simp
  qed
qed


lemma CreateDisasterReport_parsed:
  assumes "parseMultipartForm (r\<lparr>BodyLimit := Some maxBodySize\<rparr>) maxBodySize = Inr r'"
    and "upload_photos uploadPhoto (baseURL s) (form_photos r') [] w = (res, w1)"
  shows "CreateDisasterReport parseMultipartForm uploadPhoto s r w =
     (case res of
        Inl err \<Rightarrow>
          (\<lparr>Error = Some (Errorf ''create disaster report: '' err), Code = 500,
            Message = ''Failed to upload photo.'', Data = None\<rparr>, w1)
      | Inr urls \<Rightarrow>
          (case repo_CreateDisasterReport (disaster_Server.repository s)
                  ((new_disasterReport r')\<lparr>PhotoURLs := urls\<rparr>) (store w1) of
             (Some err, st2) \<Rightarrow>
               (\<lparr>Error = Some (Errorf ''create disaster report: '' err), Code = 500,
                 Message = ''Failed to create disaster report.'', Data = None\<rparr>,
                \<lparr>calls = calls w1 @
                   [Repo_CreateDisasterReport ((new_disasterReport r')\<lparr>PhotoURLs := urls\<rparr>)],
                  store = st2\<rparr>)
           | (None, st2) \<Rightarrow>
               (\<lparr>Error = None, Code = 201,
                 Message = ''Successfully created disaster report.'', Data = None\<rparr>,
                \<lparr>calls = calls w1 @
                   [Repo_CreateDisasterReport ((new_disasterReport r')\<lparr>PhotoURLs := urls\<rparr>)],
                  store = st2\<rparr>)))"
proof -
  have empty: "PhotoURLs (new_disasterReport r') = []"
    by (simp add: new_disasterReport_def Let_def)
  show ?thesis
    using assms
    by (simp add: CreateDisasterReport_def Let_def empty invoke_def http_status
          split: sum.splits prod.splits option.splits)
qed

text \<open>
  Claim C1. In the multipart \<open>CreateDisasterReport\<close>, when the uploads of the files before
  some file under "photos" succeed and the upload of that file fails, the answer is code
  500, the calls made are exactly one upload for each file up to and including the failing
  one, in order, and the repository's \<open>CreateDisasterReport\<close> is not among them: no
  report is created, and the uploads already done stay done.
\<close>

theorem CreateDisasterReport_upload_failure:
  assumes "parseMultipartForm (r\<lparr>BodyLimit := Some maxBodySize\<rparr>) maxBodySize = Inr r'"
    and "form_photos r' = before @ failing # after"
    and "uploads_in_order uploadPhoto (baseURL s) before (store w) = Some (urls, st1)"
    and "uploadPhoto failing (baseURL s) st1 = (Inl err, st2)"
  shows "Code (fst (CreateDisasterReport parseMultipartForm uploadPhoto s r w)) = 500 \<and>
         new_calls w (snd (CreateDisasterReport parseMultipartForm uploadPhoto s r w)) =
           map (\<lambda>f. Call_uploadPhoto f (baseURL s)) (before @ [failing]) \<and>
         \<not> list_ex is_create_call
             (new_calls w (snd (CreateDisasterReport parseMultipartForm uploadPhoto s r w))) \<and>
         store (snd (CreateDisasterReport parseMultipartForm uploadPhoto s r w)) = st2"
proof -
  let ?w1 = "\<lparr>calls = calls w @ map (\<lambda>f. Call_uploadPhoto f (baseURL s)) (before @ [failing]),
              store = st2\<rparr>"
  have loop: "upload_photos uploadPhoto (baseURL s) (form_photos r') [] w = (Inl err, ?w1)"
    unfolding assms(2) using assms(3,4) by (rule upload_photos_failure)
  note eq = CreateDisasterReport_parsed [of parseMultipartForm r r' uploadPhoto s w
      "Inl err" ?w1, OF assms(1) loop]
  have no_create: "\<not> list_ex is_create_call (map (\<lambda>f. Call_uploadPhoto f (baseURL s)) fs)"
    for fs :: "'a list"
    by (induction fs) simp_all
  show ?thesis
    using no_create [of "before @ [failing]"] by (simp add: eq)
qed

theorem CreateDisasterReport_upload_failure_witness:
  "Code (fst (CreateDisasterReport
       (stub_parseMultipartForm [''userId'' \<mapsto> [''u1'']] [''a.png'', ''bad.png'', ''c.png''])
       stub_uploadPhoto (stub_disaster_Server None (Inr [])) sample_Request fresh_world)) = 500 \<and>
   new_calls fresh_world (snd (CreateDisasterReport
       (stub_parseMultipartForm [''userId'' \<mapsto> [''u1'']] [''a.png'', ''bad.png'', ''c.png''])
       stub_uploadPhoto (stub_disaster_Server None (Inr [])) sample_Request fresh_world)) =
     [Call_uploadPhoto ''a.png'' ''http://host'', Call_uploadPhoto ''bad.png'' ''http://host''] \<and>
   store (snd (CreateDisasterReport
       (stub_parseMultipartForm [''userId'' \<mapsto> [''u1'']] [''a.png'', ''bad.png'', ''c.png''])
       stub_uploadPhoto (stub_disaster_Server None (Inr [])) sample_Request fresh_world)) = 2"
proof -
  let ?parse = "stub_parseMultipartForm [''userId'' \<mapsto> [''u1'']]
      [''a.png'', ''bad.png'', ''c.png'']"
  let ?s = "stub_disaster_Server None (Inr []) :: (nat, unit, string list, string) disaster_Server"
  let ?r' = "sample_Request\<lparr>BodyLimit := Some maxBodySize,
      Form := Some [''userId'' \<mapsto> [''u1'']],
      MultipartForm := Some \<lparr>FormValue_map = [''userId'' \<mapsto> [''u1'']],
        File = Some [''photos'' \<mapsto> [''a.png'', ''bad.png'', ''c.png'']]\<rparr>\<rparr>"
  have base: "baseURL ?s = ''http://host''"
    by (simp add: stub_disaster_Server_def)
  have parsed: "?parse (sample_Request\<lparr>BodyLimit := Some maxBodySize\<rparr>) maxBodySize = Inr ?r'"
    by (simp add: stub_parseMultipartForm_def)
  have photos: "form_photos ?r' = [''a.png''] @ ''bad.png'' # [''c.png'']"
    by (simp add: form_photos_def)
  have before: "uploads_in_order stub_uploadPhoto (baseURL ?s) [''a.png'']
      (store (fresh_world :: ((string, unit) disaster_call, nat) world)) =
        Some ([''http://host/0/a.png''], 1)"
    by (simp add: base stub_uploadPhoto_def fresh_world_def)
  have failing: "stub_uploadPhoto ''bad.png'' (baseURL ?s) 1 =
      (Inl (ErrorString ''upload refused''), 2)"
    by (simp add: stub_uploadPhoto_def)
  show ?thesis
    using CreateDisasterReport_upload_failure [where parseMultipartForm = ?parse
        and r = sample_Request and r' = ?r' and before = "[''a.png'']" and failing = "''bad.png''"
        and after = "[''c.png'']" and uploadPhoto = stub_uploadPhoto and s = ?s
        and w = fresh_world and urls = "[''http://host/0/a.png'']" and ?st1.0 = 1
        and err = "ErrorString ''upload refused''" and ?st2.0 = 2,
        OF parsed photos before failing]
    by (simp add: base)
qed



text \<open>
  Claim C9. In the multipart \<open>CreateDisasterReport\<close>, an empty form value "userId" gives a
  report whose \<open>UserID\<close> is absent, and a non-empty one a report whose \<open>UserID\<close> is
  exactly that string; any report the handler passes to the repository has this
  \<open>UserID\<close>.
\<close>

theorem CreateDisasterReport_reporter:
  assumes "parseMultipartForm (r\<lparr>BodyLimit := Some maxBodySize\<rparr>) maxBodySize = Inr r'"
  shows "(FormValue r' ''userId'' = [] \<longrightarrow>
            createReportRequest.UserID (new_disasterReport r') = None) \<and>
         (FormValue r' ''userId'' \<noteq> [] \<longrightarrow>
            createReportRequest.UserID (new_disasterReport r') =
              Some (FormValue r' ''userId'')) \<and>
         (\<forall>report. Repo_CreateDisasterReport report \<in>
              set (new_calls w (snd (CreateDisasterReport parseMultipartForm uploadPhoto s r w)))
            \<longrightarrow> createReportRequest.UserID report =
                  createReportRequest.UserID (new_disasterReport r'))"
proof (intro conjI allI impI)
  show "FormValue r' ''userId'' = [] \<Longrightarrow>
          createReportRequest.UserID (new_disasterReport r') = None"
    by (simp add: new_disasterReport_def Let_def)
  show "FormValue r' ''userId'' \<noteq> [] \<Longrightarrow>
          createReportRequest.UserID (new_disasterReport r') = Some (FormValue r' ''userId'')"
    by (simp add: new_disasterReport_def Let_def)
next
  fix report
  assume called: "Repo_CreateDisasterReport report \<in>
    set (new_calls w (snd (CreateDisasterReport parseMultipartForm uploadPhoto s r w)))"
  obtain res w1 where loop:
    "upload_photos uploadPhoto (baseURL s) (form_photos r') [] w = (res, w1)"
    by (cases "upload_photos uploadPhoto (baseURL s) (form_photos r') [] w")
  note eq = CreateDisasterReport_parsed [of parseMultipartForm r r' uploadPhoto s w res w1,
      OF assms loop]
  from upload_photos_only_uploads [OF loop] obtain k where
    w1: "calls w1 = calls w @ map (\<lambda>f. Call_uploadPhoto f (baseURL s)) (take k (form_photos r'))"
    ..
  show "createReportRequest.UserID report =
          createReportRequest.UserID (new_disasterReport r')"
  proof (cases res)
    case (Inl err)
    with called eq w1 show ?thesis
      by (auto simp: new_calls_def)
  next
    case (Inr urls)
    with called eq w1 show ?thesis
      by (auto simp: new_calls_def split: prod.splits option.splits)
  qed
qed

theorem CreateDisasterReport_reporter_witness:
  "createReportRequest.UserID (new_disasterReport
       (sample_Request\<lparr>BodyLimit := Some maxBodySize, Form := Some [''userId'' \<mapsto> [''u1'']],
          MultipartForm := Some \<lparr>FormValue_map = [''userId'' \<mapsto> [''u1'']],
            File = Some [''photos'' \<mapsto> []]\<rparr>\<rparr>)) = Some ''u1'' \<and>
   createReportRequest.UserID (new_disasterReport
       (sample_Request\<lparr>BodyLimit := Some maxBodySize, Form := Some [''userId'' \<mapsto> [[]]],
          MultipartForm := Some \<lparr>FormValue_map = [''userId'' \<mapsto> [[]]],
            File = Some [''photos'' \<mapsto> []]\<rparr>\<rparr>)) = None \<and>
   new_calls fresh_world (snd (CreateDisasterReport
       (stub_parseMultipartForm [''userId'' \<mapsto> [[]]] [])
       stub_uploadPhoto (stub_disaster_Server None (Inr [])) sample_Request fresh_world)) =
     [Repo_CreateDisasterReport
        \<lparr>createReportRequest.UserID = None, Name = [], Status = [], RawSituation = [],
         PhotoURLs = []\<rparr>]"
proof -
  let ?s = "stub_disaster_Server None (Inr []) :: (nat, unit, string list, string) disaster_Server"
  let ?w = "fresh_world :: ((string, unit) disaster_call, nat) world"
  let ?r1 = "sample_Request\<lparr>BodyLimit := Some maxBodySize,
      Form := Some [''userId'' \<mapsto> [''u1'']],
      MultipartForm := Some \<lparr>FormValue_map = [''userId'' \<mapsto> [''u1'']],
        File = Some [''photos'' \<mapsto> []]\<rparr>\<rparr>"
  let ?r0 = "sample_Request\<lparr>BodyLimit := Some maxBodySize,
      Form := Some [''userId'' \<mapsto> [[]]],
      MultipartForm := Some \<lparr>FormValue_map = [''userId'' \<mapsto> [[]]],
        File = Some [''photos'' \<mapsto> []]\<rparr>\<rparr>"
  have parsed1: "stub_parseMultipartForm [''userId'' \<mapsto> [''u1'']] []
      (sample_Request\<lparr>BodyLimit := Some maxBodySize\<rparr>) maxBodySize = Inr ?r1"
    by (simp add: stub_parseMultipartForm_def)
  have parsed0: "stub_parseMultipartForm [''userId'' \<mapsto> [[]]] []
      (sample_Request\<lparr>BodyLimit := Some maxBodySize\<rparr>) maxBodySize = Inr ?r0"
    by (simp add: stub_parseMultipartForm_def)
  have v1: "FormValue ?r1 ''userId'' = ''u1''" and v0: "FormValue ?r0 ''userId'' = []"
    by (simp_all add: FormValue_def Values_Get_def)
  have run0: "new_calls ?w (snd (CreateDisasterReport
       (stub_parseMultipartForm [''userId'' \<mapsto> [[]]] []) stub_uploadPhoto ?s sample_Request ?w)) =
     [Repo_CreateDisasterReport ((new_disasterReport ?r0)\<lparr>PhotoURLs := []\<rparr>)]"
    by (simp add: CreateDisasterReport_def stub_parseMultipartForm_def form_photos_def
          stub_disaster_Server_def fresh_world_def invoke_def new_calls_def Let_def
          new_disasterReport_def)
  note with_id = CreateDisasterReport_reporter [where r = sample_Request and r' = ?r1
      and parseMultipartForm = "stub_parseMultipartForm [''userId'' \<mapsto> [''u1'']] []"
      and w = ?w and uploadPhoto = stub_uploadPhoto and s = ?s, OF parsed1]
  note without_id = CreateDisasterReport_reporter [where r = sample_Request and r' = ?r0
      and parseMultipartForm = "stub_parseMultipartForm [''userId'' \<mapsto> [[]]] []"
      and w = ?w and uploadPhoto = stub_uploadPhoto and s = ?s, OF parsed0]
  have "createReportRequest.UserID ((new_disasterReport ?r0)\<lparr>PhotoURLs := []\<rparr>) = None"
    using without_id v0 run0 by simp
  then show ?thesis
    using with_id v1 without_id v0 run0
    by (simp add: new_disasterReport_def Let_def FormValue_def Values_Get_def)
qed

end
